theory Spec2Isabelle
  imports Main
begin

section \<open>Format table and direct-conversion lookup (src/unnamed/part_001)\<close>

text \<open>
  Format identifiers are strings. \<open>toLowerCase\<close> is modelled on ASCII text: the letters
  \<open>A\<close>..\<open>Z\<close> are mapped to \<open>a\<close>..\<open>z\<close>, every other character is kept.
\<close>

definition toLowerCase_char :: "char \<Rightarrow> char" where
  "toLowerCase_char c =
     (case map_of (zip ''ABCDEFGHIJKLMNOPQRSTUVWXYZ'' ''abcdefghijklmnopqrstuvwxyz'') c of
        Some l \<Rightarrow> l
      | None \<Rightarrow> c)"

definition toLowerCase :: "string \<Rightarrow> string" where
  "toLowerCase s = map toLowerCase_char s"

text \<open>
  The object literal \<open>supportedFormats\<close>, in source order: every own key with its array
  of target formats.
\<close>

definition supportedFormats :: "(string \<times> string list) list" where
  "supportedFormats =
    [(''pdf'', [''docx'', ''jpg'', ''png'', ''html'', ''txt'']),
     (''docx'', [''pdf'', ''txt'', ''html'', ''epub'', ''rtf'']),
     (''txt'', [''pdf'', ''docx'', ''html'', ''rtf'']),
     (''rtf'', [''pdf'', ''docx'', ''txt'', ''html'']),
     (''epub'', [''pdf'', ''docx'', ''html'']),
     (''html'', [''pdf'', ''docx'', ''txt'']),
     (''jpg'', [''png'', ''webp'', ''pdf'', ''svg'', ''gif'']),
     (''jpeg'', [''png'', ''webp'', ''pdf'', ''svg'', ''gif'']),
     (''png'', [''jpg'', ''webp'', ''pdf'', ''svg'', ''gif'']),
     (''gif'', [''jpg'', ''png'', ''webp'', ''mp4'']),
     (''svg'', [''png'', ''jpg'', ''pdf'']),
     (''webp'', [''jpg'', ''png'', ''pdf'']),
     (''bmp'', [''jpg'', ''png'', ''pdf'']),
     (''tiff'', [''jpg'', ''png'', ''pdf'']),
     (''mp3'', [''wav'', ''ogg'', ''flac'', ''aac'']),
     (''wav'', [''mp3'', ''ogg'', ''flac'', ''aac'']),
     (''flac'', [''mp3'', ''wav'', ''ogg'', ''aac'']),
     (''ogg'', [''mp3'', ''wav'', ''flac'', ''aac'']),
     (''aac'', [''mp3'', ''wav'', ''ogg'']),
     (''mp4'', [''mkv'', ''avi'', ''webm'', ''gif'']),
     (''mkv'', [''mp4'', ''avi'', ''webm'']),
     (''avi'', [''mp4'', ''mkv'', ''webm'']),
     (''webm'', [''mp4'', ''mkv'', ''avi'']),
     (''mov'', [''mp4'', ''mkv'', ''avi'', ''webm'']),
     (''zip'', [''7z'', ''tar'', ''rar'', ''gz'']),
     (''7z'', [''zip'', ''tar'', ''gz'']),
     (''rar'', [''zip'', ''7z'', ''tar'', ''gz'']),
     (''tar'', [''zip'', ''7z'', ''gz'']),
     (''gz'', [''zip'', ''7z'', ''tar'']),
     (''xlsx'', [''csv'', ''pdf'', ''html'', ''json'']),
     (''xls'', [''xlsx'', ''csv'', ''pdf'', ''html'', ''json'']),
     (''csv'', [''xlsx'', ''json'', ''pdf'', ''html'']),
     (''pptx'', [''pdf'', ''jpg'', ''png'']),
     (''ppt'', [''pptx'', ''pdf'', ''jpg'', ''png'']),
     (''dwg'', [''pdf'', ''dxf'', ''svg'']),
     (''dxf'', [''pdf'', ''dwg'', ''svg'']),
     (''obj'', [''stl'', ''fbx'', ''glb'']),
     (''stl'', [''obj'', ''fbx'', ''glb'']),
     (''fbx'', [''obj'', ''stl'', ''glb'']),
     (''glb'', [''obj'', ''stl'', ''fbx''])]"

text \<open>
  \<open>supportedFormats[key]\<close> is a property read on an ordinary object: an own key yields its
  array; a key that is not an own key is looked up on \<open>Object.prototype\<close>, whose members
  are functions (and, for \<open>__proto__\<close>, the prototype object itself): truthy values that
  are not arrays and have no \<open>includes\<close> method. Any other key yields \<open>undefined\<close>.
\<close>

datatype js_value = Undefined | Array "string list" | NonArray

datatype js_error = TypeError

definition Object_prototype_keys :: "string list" where
  "Object_prototype_keys =
    [''constructor'', ''__defineGetter__'', ''__defineSetter__'', ''hasOwnProperty'',
     ''__lookupGetter__'', ''__lookupSetter__'', ''isPrototypeOf'', ''propertyIsEnumerable'',
     ''toString'', ''valueOf'', ''__proto__'', ''toLocaleString'']"

definition supportedFormats_at :: "string \<Rightarrow> js_value" where
  "supportedFormats_at key =
     (case map_of supportedFormats key of
        Some targets \<Rightarrow> Array targets
      | None \<Rightarrow> if key \<in> set Object_prototype_keys then NonArray else Undefined)"

definition truthy_value :: "js_value \<Rightarrow> bool" where
  "truthy_value v = (v \<noteq> Undefined)"

text \<open>
  \<open>isConversionSupported\<close>: false when the lookup is falsy, otherwise
  \<open>supportedFormats[source].includes(target)\<close>, which raises a TypeError when the value
  found has no such method.
\<close>

definition isConversionSupported :: "string \<Rightarrow> string \<Rightarrow> js_error + bool" where
  "isConversionSupported sourceFormat targetFormat =
     (let source = toLowerCase sourceFormat;
          target = toLowerCase targetFormat
      in if \<not> truthy_value (supportedFormats_at source) then Inr False
         else (case supportedFormats_at source of
                 Array targets \<Rightarrow> Inr (target \<in> set targets)
               | _ \<Rightarrow> Inl TypeError))"

text \<open>\<open>getAvailableTargetFormats\<close>: \<open>supportedFormats[source] || []\<close>.\<close>

definition getAvailableTargetFormats :: "string \<Rightarrow> js_value" where
  "getAvailableTargetFormats sourceFormat =
     (let source = toLowerCase sourceFormat
      in if truthy_value (supportedFormats_at source) then supportedFormats_at source
         else Array [])"

definition getAllSourceFormats :: "string list" where
  "getAllSourceFormats = map fst supportedFormats"

definition isFormatSupported :: "string \<Rightarrow> bool" where
  "isFormatSupported format = truthy_value (supportedFormats_at (toLowerCase format))"

text \<open>
  The format graph of the specification, read off the table: an edge is a registered direct
  conversion, that is, the target is listed in the array stored under the source key.
\<close>

definition edge :: "string \<Rightarrow> string \<Rightarrow> bool" where
  "edge a b = (case map_of supportedFormats a of Some targets \<Rightarrow> b \<in> set targets | None \<Rightarrow> False)"


section \<open>Status badges (src/frontend/src/pages/ConversionDetailPage.tsx)\<close>

text \<open>
  \<open>getStatusBadgeClass\<close>: the badge of a status text; every text the \<open>switch\<close> does not
  name gets the grey badge.
\<close>

definition getStatusBadgeClass :: "string \<Rightarrow> string" where
  "getStatusBadgeClass status =
     (if status = ''completed'' then
        ''bg-green-100 text-green-800 dark:bg-green-900/30 dark:text-green-300''
      else if status = ''processing'' then
        ''bg-blue-100 text-blue-800 dark:bg-blue-900/30 dark:text-blue-300''
      else if status = ''pending'' then
        ''bg-yellow-100 text-yellow-800 dark:bg-yellow-900/30 dark:text-yellow-300''
      else if status = ''failed'' then
        ''bg-red-100 text-red-800 dark:bg-red-900/30 dark:text-red-300''
      else if status = ''scheduled'' then
        ''bg-purple-100 text-purple-800 dark:bg-purple-900/30 dark:text-purple-300''
      else ''bg-gray-100 text-gray-800 dark:bg-gray-900/30 dark:text-gray-300'')"

section \<open>JSON values\<close>

text \<open>
  Response bodies and cached data are JSON values, the values that
  \<open>JSON.parse (JSON.stringify v)\<close> gives back unchanged. Numbers are integers here.
\<close>

datatype json =
    JNull
  | JBool bool
  | JNum int
  | JStr string
  | JArr "json list"
  | JObj "(string \<times> json) list"

fun truthy :: "json \<Rightarrow> bool" where
  "truthy JNull = False"
| "truthy (JBool b) = b"
| "truthy (JNum n) = (n \<noteq> 0)"
| "truthy (JStr s) = (s \<noteq> [])"
| "truthy (JArr xs) = True"
| "truthy (JObj kvs) = True"

text \<open>Reading a property of a value: \<open>None\<close> is \<open>undefined\<close>. A later duplicate key wins.\<close>

fun js_get :: "json \<Rightarrow> string \<Rightarrow> json option" where
  "js_get (JObj kvs) k = map_of (rev kvs) k"
| "js_get v k = None"

definition truthy_field :: "json \<Rightarrow> string \<Rightarrow> bool" where
  "truthy_field v k = (case js_get v k of Some x \<Rightarrow> truthy x | None \<Rightarrow> False)"

section \<open>The response cache (class RequestCache, src/unnamed/part_000)\<close>

definition CACHE_EXPIRY :: int where
  "CACHE_EXPIRY = 5 * 60 * 1000"

definition CACHE_KEY_PREFIX :: string where
  "CACHE_KEY_PREFIX = ''api_cache_''"

record CacheItem =
  data :: json
  expiry :: int

text \<open>
  What \<open>localStorage\<close> holds under a key, by how \<open>RequestCache.get\<close> reads it: the empty
  string (falsy, so never parsed), a non-empty text on which the \<open>try\<close> block throws
  (\<open>JSON.parse\<close> fails), or the serialisation of a \<open>CacheItem\<close>. Texts that parse to a value of another shape are outside
  the model; \<open>RequestCache.set\<close> never writes one.
\<close>

datatype stored = EmptyText | Unparsable | ItemText CacheItem

text \<open>
  The browser state the cache works on: \<open>localStorage\<close>, the clock read by \<open>Date.now()\<close>
  (milliseconds), and whether \<open>window\<close> is defined.
\<close>

record world =
  storage :: "string \<Rightarrow> stored option"
  now :: int
  has_window :: bool

definition removeItem :: "world \<Rightarrow> string \<Rightarrow> world" where
  "removeItem w k = w\<lparr>storage := (storage w)(k := None)\<rparr>"

definition setItem :: "world \<Rightarrow> string \<Rightarrow> stored \<Rightarrow> world" where
  "setItem w k v = w\<lparr>storage := (storage w)(k \<mapsto> v)\<rparr>"

text \<open>\<open>RequestCache.get\<close>: the value returned (\<open>None\<close> is \<open>null\<close>) and the state left.\<close>

definition RequestCache_get :: "world \<Rightarrow> string \<Rightarrow> json option \<times> world" where
  "RequestCache_get w key =
     (if \<not> has_window w then (None, w)
      else
        let cacheKey = CACHE_KEY_PREFIX @ key in
        (case storage w cacheKey of
           None \<Rightarrow> (None, w)
         | Some EmptyText \<Rightarrow> (None, w)
         | Some Unparsable \<Rightarrow> (None, removeItem w cacheKey)
         | Some (ItemText item) \<Rightarrow>
             if expiry item < now w then (None, removeItem w cacheKey)
             else (Some (data item), w)))"

definition RequestCache_set :: "world \<Rightarrow> string \<Rightarrow> json \<Rightarrow> int \<Rightarrow> world" where
  "RequestCache_set w key d expiryTime =
     (if \<not> has_window w then w
      else
        let cacheKey = CACHE_KEY_PREFIX @ key;
            item = \<lparr>data = d, expiry = now w + expiryTime\<rparr>
        in setItem w cacheKey (ItemText item))"

definition RequestCache_remove :: "world \<Rightarrow> string \<Rightarrow> world" where
  "RequestCache_remove w key =
     (if \<not> has_window w then w else removeItem w (CACHE_KEY_PREFIX @ key))"

section \<open>Requests through the axios instance (src/unnamed/part_000)\<close>

text \<open>
  The server and the network, as seen by one caller whose requests follow one another: for a
  URL and the number of HTTP requests sent before, the time the request takes (milliseconds)
  and what comes back, either no answer at all (a network failure or a timeout) or an answer
  with its status and its data. The answers are given whatever the request carries, so the
  request interceptor, which only adds the \<open>Authorization\<close> header, leaves no trace here.
\<close>

datatype answer = NoAnswer | Answer int json

type_synonym network = "string \<Rightarrow> nat \<Rightarrow> nat \<times> answer"

text \<open>
  Of an error the code reads whether it is an axios error, its \<open>response\<close> (absent when
  none was received) and there the \<open>status\<close> and the \<open>data\<close>.
\<close>

record http_response =
  status :: int
  body :: json

record request_error =
  isAxiosError :: bool
  response :: "http_response option"

text \<open>
  The errors that occur: the axios error for an answer whose status axios does not accept;
  the plain objects \<open>networkError\<close> and \<open>serverError\<close> the response interceptor builds,
  which have no field \<open>response\<close>; and an exception thrown by the client's own code
  (an \<open>Error\<close>, a \<open>TypeError\<close>, the exception of a refused \<open>localStorage.setItem\<close>).
\<close>

definition axiosError :: "int \<Rightarrow> json \<Rightarrow> request_error" where
  "axiosError st d = \<lparr>isAxiosError = True, response = Some \<lparr>status = st, body = d\<rparr>\<rparr>"

definition axiosError_without_response :: request_error where
  "axiosError_without_response = \<lparr>isAxiosError = True, response = None\<rparr>"

definition networkError :: request_error where
  "networkError = \<lparr>isAxiosError = False, response = None\<rparr>"

definition serverError :: request_error where
  "serverError = \<lparr>isAxiosError = False, response = None\<rparr>"

definition thrownError :: request_error where
  "thrownError = \<lparr>isAxiosError = False, response = None\<rparr>"

text \<open>
  How a promise of the instance settles. It stays unsettled when the interceptor parks the
  request behind a token refresh that another request has started.
\<close>

datatype reply = Resolved json | Rejected request_error | Unsettled

text \<open>
  The state the response interceptor works on. Of the texts that \<open>localStorage\<close> holds
  under \<open>token\<close>, \<open>refreshToken\<close> and \<open>user_data\<close> the code reads only whether there is
  one that is not empty. \<open>isRefreshing\<close> and \<open>lastRefreshAttempt\<close> are the module's
  variables. \<open>writes_refused\<close> says that \<open>localStorage.setItem\<close> throws (the quota is used
  up, or the browser forbids writing).
\<close>

record session =
  has_token :: bool
  has_refreshToken :: bool
  has_user_data :: bool
  isRefreshing :: bool
  lastRefreshAttempt :: int
  writes_refused :: bool

text \<open>
  Whether \<open>String(v)\<close>, the text \<open>localStorage.setItem\<close> stores for a value, is not empty;
  \<open>None\<close> is \<open>undefined\<close>. The empty text comes from the empty string and from an array
  that is empty or holds one element whose own text is empty.
\<close>

fun empty_text :: "json \<Rightarrow> bool" where
  "empty_text (JStr t) = (t = [])"
| "empty_text (JArr []) = True"
| "empty_text (JArr [x]) = (x = JNull \<or> empty_text x)"
| "empty_text v = False"

definition nonempty_text :: "json option \<Rightarrow> bool" where
  "nonempty_text v = (case v of None \<Rightarrow> True | Some x \<Rightarrow> \<not> empty_text x)"

definition elapse :: "int \<Rightarrow> world \<Rightarrow> world" where
  "elapse ms w = w\<lparr>now := now w + ms\<rparr>"

text \<open>
  One call of \<open>api.get\<close> or \<open>api.post\<close>, run until its promise settles: how it settles,
  the number of HTTP requests it sent, and the state it leaves.
\<close>

record exchange =
  settles :: reply
  sent :: nat
  world_after :: world
  session_after :: session

text \<open>
  A request that the interceptor does not treat as a 401: axios resolves an answer with a
  status from 200 to 299; of the others the interceptor turns a missing answer into
  \<open>networkError\<close>, a status of 500 or more into \<open>serverError\<close>, and rejects with the axios
  error itself otherwise.
\<close>

definition pass_on :: "answer \<Rightarrow> reply" where
  "pass_on a =
     (case a of
        NoAnswer \<Rightarrow> Rejected networkError
      | Answer st d \<Rightarrow>
          if 200 \<le> st \<and> st < 300 then Resolved d
          else if st \<ge> 500 then Rejected serverError
          else Rejected (axiosError st d))"

text \<open>
  The \<open>catch\<close> of the refresh: the flag is reset and the three entries are removed. The
  redirect to the login page that it schedules is not modelled; the run goes on as it does
  while the page is still loaded.
\<close>

definition refresh_failed :: "session \<Rightarrow> session" where
  "refresh_failed s =
     s\<lparr>isRefreshing := False, has_token := False, has_refreshToken := False,
       has_user_data := False\<rparr>"

text \<open>
  The end of a refresh that succeeded: the new token is stored, the new refresh token too
  when the response holds a truthy one, and the flag is reset.
\<close>

definition refreshed :: "json \<Rightarrow> session \<Rightarrow> session" where
  "refreshed d s =
     s\<lparr>has_token := nonempty_text (js_get d ''token''),
       has_refreshToken :=
         (if truthy_field d ''refreshToken'' then nonempty_text (js_get d ''refreshToken'')
          else has_refreshToken s),
       isRefreshing := False\<rparr>"

text \<open>
  The \<open>try\<close> block of the interceptor's 401 branch, entered with \<open>isRefreshing\<close> and
  \<open>lastRefreshAttempt\<close> already set. Without a refresh token it throws. Otherwise the
  refresh request is sent, through an instance without interceptors, as HTTP request number
  \<open>k + 1\<close>. When it fails, its error is what the original request is rejected with. When it
  succeeds, reading the tokens throws on the data \<open>null\<close> and storing them throws when
  writes are refused; otherwise the original request is sent again, as request number
  \<open>k + 2\<close>, with \<open>_retry\<close> set, so that its answer is passed on even if it is a 401 again.
\<close>

definition refresh_and_replay :: "network \<Rightarrow> string \<Rightarrow> nat \<Rightarrow> world \<Rightarrow> session \<Rightarrow> exchange" where
  "refresh_and_replay net url k w1 s1 =
     (if \<not> has_refreshToken s1 then
        \<lparr>settles = Rejected thrownError, sent = 1, world_after = w1,
         session_after = refresh_failed s1\<rparr>
      else
        (let w2 = elapse (int (fst (net ''/api/auth/refresh'' (k + 1)))) w1 in
         case snd (net ''/api/auth/refresh'' (k + 1)) of
           NoAnswer \<Rightarrow>
             \<lparr>settles = Rejected axiosError_without_response, sent = 2, world_after = w2,
              session_after = refresh_failed s1\<rparr>
         | Answer st2 d2 \<Rightarrow>
             if 200 \<le> st2 \<and> st2 < 300 then
               (if d2 = JNull \<or> writes_refused s1 then
                  \<lparr>settles = Rejected thrownError, sent = 2, world_after = w2,
                   session_after = refresh_failed s1\<rparr>
                else
                  \<lparr>settles = pass_on (snd (net url (k + 2))), sent = 3,
                   world_after = elapse (int (fst (net url (k + 2)))) w2,
                   session_after = refreshed d2 s1\<rparr>)
             else
               \<lparr>settles = Rejected (axiosError st2 d2), sent = 2, world_after = w2,
                session_after = refresh_failed s1\<rparr>))"

text \<open>
  \<open>api.get\<close> and \<open>api.post\<close> with the response interceptor, for HTTP request number \<open>k\<close>.
  An answer 401 to a URL other than the refresh endpoint enters the refresh branch: within
  five seconds of the last refresh attempt the error is rejected as it is; while another
  request is refreshing, this one is parked; otherwise a refresh is started. No caller of
  \<open>apiService.get\<close> or \<open>apiService.post\<close> under \<open>src/\<close> passes a cancel token, and
  cancelled requests are not modelled.
\<close>

definition api_request :: "network \<Rightarrow> string \<Rightarrow> nat \<Rightarrow> world \<Rightarrow> session \<Rightarrow> exchange" where
  "api_request net url k w s =
     (let w1 = elapse (int (fst (net url k))) w in
      case snd (net url k) of
        NoAnswer \<Rightarrow>
          \<lparr>settles = pass_on NoAnswer, sent = 1, world_after = w1, session_after = s\<rparr>
      | Answer st d \<Rightarrow>
          if st = 401 \<and> url \<noteq> ''/api/auth/refresh'' then
            (if now w1 - lastRefreshAttempt s < 5000 \<and> \<not> isRefreshing s then
               \<lparr>settles = Rejected (axiosError st d), sent = 1, world_after = w1,
                session_after = s\<rparr>
             else if isRefreshing s then
               \<lparr>settles = Unsettled, sent = 1, world_after = w1, session_after = s\<rparr>
             else
               refresh_and_replay net url k w1
                 (s\<lparr>isRefreshing := True, lastRefreshAttempt := now w1\<rparr>))
          else
            \<lparr>settles = pass_on (Answer st d), sent = 1, world_after = w1,
             session_after = s\<rparr>)"

section \<open>Requests with retries (apiService, src/unnamed/part_000)\<close>

text \<open>
  \<open>handleApiError\<close>, by the \<open>code\<close> of the \<open>ApiErrorDetails\<close> it returns (\<open>None\<close> is
  \<open>undefined\<close>); the message and the other fields are not modelled.
\<close>

datatype ApiErrorDetails = ApiErrorDetails (code: "json option")

definition handleApiError :: "request_error \<Rightarrow> ApiErrorDetails" where
  "handleApiError error =
     (let unknown = ApiErrorDetails (Some (JStr ''UNKNOWN_ERROR'')) in
      if isAxiosError error then
        (case response error of
           None \<Rightarrow> ApiErrorDetails (Some (JStr ''NETWORK_ERROR''))
         | Some r \<Rightarrow>
             if status r \<ge> 500 then ApiErrorDetails (Some (JStr ''SERVER_ERROR''))
             else if truthy (body r) then
               (if truthy_field (body r) ''message'' \<or> truthy_field (body r) ''error''
                then ApiErrorDetails (js_get (body r) ''code'')
                else if truthy_field (body r) ''errors'' \<or> truthy_field (body r) ''details''
                then ApiErrorDetails (Some (JStr ''VALIDATION_ERROR''))
                else unknown)
             else unknown)
      else unknown)"

datatype outcome = Returned json | Thrown ApiErrorDetails | NeverSettles

text \<open>
  A call of \<open>apiService.get\<close> or \<open>apiService.post\<close>, run to its end: how it settles, the
  delays it waited before its retries (milliseconds, in order), the number of attempts
  (calls of \<open>api.get\<close> or \<open>api.post\<close>), the number of HTTP requests sent, and the state it
  leaves.
\<close>

record run =
  result :: outcome
  waits :: "int list"
  calls :: nat
  requests :: nat
  final :: world
  final_session :: session

text \<open>
  The extra options of \<open>apiService.get\<close>; \<open>None\<close> is an option left out. \<open>retry\<close> and
  \<open>cacheTime\<close> are whole numbers. \<open>params\<close> stands for
  \<open>JSON.stringify(axiosConfig.params)\<close> when \<open>params\<close> is given.
\<close>

record get_config =
  useCache :: "bool option"
  cacheTime :: "int option"
  retry :: "int option"
  params :: "string option"

definition no_config :: get_config where
  "no_config = \<lparr>useCache = None, cacheTime = None, retry = None, params = None\<rparr>"

text \<open>The destructuring defaults: \<open>useCache = false, cacheTime = CACHE_EXPIRY, retry = 0\<close>.\<close>

definition useCache_of :: "get_config \<Rightarrow> bool" where
  "useCache_of config = (case useCache config of None \<Rightarrow> False | Some b \<Rightarrow> b)"

definition cacheTime_of :: "get_config \<Rightarrow> int" where
  "cacheTime_of config = (case cacheTime config of None \<Rightarrow> CACHE_EXPIRY | Some t \<Rightarrow> t)"

definition retry_of :: "get_config \<Rightarrow> int" where
  "retry_of config = (case retry config of None \<Rightarrow> 0 | Some r \<Rightarrow> r)"

definition cacheKey_of :: "string \<Rightarrow> get_config \<Rightarrow> string" where
  "cacheKey_of url config =
     (if useCache_of config
      then url @ (case params config of Some p \<Rightarrow> p | None \<Rightarrow> [])
      else [])"

text \<open>
  The delay handed to \<open>setTimeout\<close>: \<open>1000 * Math.pow(2, config.retry - retry)\<close>, where
  \<open>retry\<close> is the value destructured from the same \<open>config\<close> (in the retry branch
  \<open>config.retry\<close> is set: the default 0 does not pass \<open>retry > 0\<close>). A timer delay is
  truncated to whole milliseconds.
\<close>

definition backoff :: "int \<Rightarrow> int" where
  "backoff e = (if 0 \<le> e then 1000 * 2 ^ nat e else 1000 div 2 ^ nat (- e))"

text \<open>The first step of \<open>apiService.get\<close>: the cache is asked when \<open>useCache\<close> is set.\<close>

definition cache_lookup :: "string \<Rightarrow> get_config \<Rightarrow> world \<Rightarrow> json option \<times> world" where
  "cache_lookup url config w =
     (if useCache_of config then RequestCache_get w (cacheKey_of url config) else (None, w))"

definition served :: "json option \<Rightarrow> bool" where
  "served cachedData = (case cachedData of Some d \<Rightarrow> truthy d | None \<Rightarrow> False)"

text \<open>
  The \<open>try\<close> block of \<open>apiService.get\<close>: the request, and for a response the write to the
  cache when \<open>useCache\<close> is set. \<open>RequestCache.set\<close> stands inside the block: when the
  browser refuses the write, its exception is what the block ends with, and the \<open>catch\<close>
  treats it like the error of a request.
\<close>

definition get_try :: "network \<Rightarrow> string \<Rightarrow> get_config \<Rightarrow> nat \<Rightarrow> world \<Rightarrow> session \<Rightarrow> exchange" where
  "get_try net url config k w s =
     (let a = api_request net url k w s in
      case settles a of
        Resolved d \<Rightarrow>
          if useCache_of config then
            (if has_window (world_after a) \<and> writes_refused (session_after a)
             then a\<lparr>settles := Rejected thrownError\<rparr>
             else a\<lparr>world_after :=
                      RequestCache_set (world_after a) (cacheKey_of url config) d
                        (cacheTime_of config)\<rparr>)
          else a
      | Rejected error \<Rightarrow> a
      | Unsettled \<Rightarrow> a)"

function apiService_get ::
  "network \<Rightarrow> string \<Rightarrow> get_config \<Rightarrow> nat \<Rightarrow> world \<Rightarrow> session \<Rightarrow> run" where
  "apiService_get net url config k w s =
     (let cachedData = fst (cache_lookup url config w);
          w1 = snd (cache_lookup url config w)
      in
        if served cachedData
        then \<lparr>result = Returned (case cachedData of Some d \<Rightarrow> d | None \<Rightarrow> JNull),
              waits = [], calls = 0, requests = 0, final = w1, final_session = s\<rparr>
        else
          (let a = get_try net url config k w1 s in
           case settles a of
             Resolved d \<Rightarrow>
               \<lparr>result = Returned d, waits = [], calls = 1, requests = sent a,
                final = world_after a, final_session = session_after a\<rparr>
           | Unsettled \<Rightarrow>
               \<lparr>result = NeverSettles, waits = [], calls = 1, requests = sent a,
                final = world_after a, final_session = session_after a\<rparr>
           | Rejected error \<Rightarrow>
               if retry_of config > 0 \<and>
                  (case response error of None \<Rightarrow> True | Some r \<Rightarrow> status r \<ge> 500)
               then
                 (let delay =
                        backoff ((case retry config of Some r \<Rightarrow> r | None \<Rightarrow> 0) - retry_of config);
                      again =
                        apiService_get net url (config\<lparr>retry := Some (retry_of config - 1)\<rparr>)
                          (k + sent a) (elapse delay (world_after a)) (session_after a)
                  in again\<lparr>waits := delay # waits again, calls := Suc (calls again),
                           requests := sent a + requests again\<rparr>)
               else
                 \<lparr>result = Thrown (handleApiError error), waits = [], calls = 1,
                  requests = sent a, final = world_after a,
                  final_session = session_after a\<rparr>))"
  by pat_completeness auto
termination
  by (relation "measure (\<lambda>(net, url, config, k, w, s). nat (retry_of config))")
     (auto simp: retry_of_def)

text \<open>The extra option of \<open>apiService.post\<close>, and its default \<open>retry = 0\<close>.\<close>

record post_config =
  post_retry :: "int option"

definition post_retry_of :: "post_config \<Rightarrow> int" where
  "post_retry_of config = (case post_retry config of None \<Rightarrow> 0 | Some r \<Rightarrow> r)"

function apiService_post ::
  "network \<Rightarrow> string \<Rightarrow> post_config \<Rightarrow> nat \<Rightarrow> world \<Rightarrow> session \<Rightarrow> run" where
  "apiService_post net url config k w s =
     (let a = api_request net url k w s in
      case settles a of
        Resolved d \<Rightarrow>
          \<lparr>result = Returned d, waits = [], calls = 1, requests = sent a,
           final = world_after a, final_session = session_after a\<rparr>
      | Unsettled \<Rightarrow>
          \<lparr>result = NeverSettles, waits = [], calls = 1, requests = sent a,
           final = world_after a, final_session = session_after a\<rparr>
      | Rejected error \<Rightarrow>
          if post_retry_of config > 0 \<and>
             (case response error of None \<Rightarrow> True | Some r \<Rightarrow> status r \<ge> 500)
          then
            (let delay =
                   backoff ((case post_retry config of Some r \<Rightarrow> r | None \<Rightarrow> 0)
                            - post_retry_of config);
                 again =
                   apiService_post net url (config\<lparr>post_retry := Some (post_retry_of config - 1)\<rparr>)
                     (k + sent a) (elapse delay (world_after a)) (session_after a)
             in again\<lparr>waits := delay # waits again, calls := Suc (calls again),
                      requests := sent a + requests again\<rparr>)
          else
            \<lparr>result = Thrown (handleApiError error), waits = [], calls = 1,
             requests = sent a, final = world_after a, final_session = session_after a\<rparr>)"
  by pat_completeness auto
termination
  by (relation "measure (\<lambda>(net, url, config, k, w, s). nat (post_retry_of config))")
     (auto simp: post_retry_of_def)

text \<open>
  \<open>conversions.getBatchStatus\<close>: a GET of \<open>/api/batch/${batchId}\<close> with \<open>retry: 2\<close>; the
  caller receives the response data as it came.
\<close>

definition getBatchStatus :: "network \<Rightarrow> string \<Rightarrow> world \<Rightarrow> session \<Rightarrow> run" where
  "getBatchStatus net batchId w s =
     apiService_get net (''/api/batch/'' @ batchId) (no_config\<lparr>retry := Some 2\<rparr>) 0 w s"

text \<open>A number in a template literal, for the non-negative integers that ids are.\<close>

function string_of_nat :: "nat \<Rightarrow> string" where
  "string_of_nat n =
     (if n < 10 then [''0123456789'' ! n]
      else string_of_nat (n div 10) @ [''0123456789'' ! (n mod 10)])"
  by pat_completeness auto
termination
  by (relation "measure id") auto

text \<open>
  \<open>conversions.cancel\<close>: a POST of \<open>/api/conversions/${conversionId}/cancel\<close> with no body
  and no options.
\<close>

definition conversions_cancel :: "network \<Rightarrow> nat \<Rightarrow> world \<Rightarrow> session \<Rightarrow> run" where
  "conversions_cancel net conversionId w s =
     apiService_post net (''/api/conversions/'' @ string_of_nat conversionId @ ''/cancel'')
       \<lparr>post_retry = None\<rparr> 0 w s"

section \<open>The dashboard's figures (DashboardPage, src/unnamed/part_002)\<close>

text \<open>
  The state of the page that \<open>fetchDashboardData\<close> writes: the recent conversions, the
  statistics shown and the loading flag, with the initial values of the \<open>useState\<close> calls.
\<close>

record DashboardStats =
  today :: int
  total :: int
  remaining :: int
  mostUsedFormat :: string

record dashboard =
  recentConversions :: json
  stats :: DashboardStats
  loading :: bool

definition initial_dashboard :: dashboard where
  "initial_dashboard =
     \<lparr>recentConversions = JArr [],
      stats = \<lparr>today = 0, total = 0, remaining = 0, mostUsedFormat = ''-''\<rparr>,
      loading = True\<rparr>"

text \<open>
  \<open>x || 0\<close> and \<open>x || '-'\<close> on a field of the statistics response. The fields are numbers
  and a string, as \<open>StatisticsData\<close> declares them, or are absent; a field of another kind
  is outside the model.
\<close>

definition number_or_zero :: "json option \<Rightarrow> int" where
  "number_or_zero x = (case x of Some (JNum n) \<Rightarrow> n | _ \<Rightarrow> 0)"

definition text_or_dash :: "json option \<Rightarrow> string" where
  "text_or_dash x = (case x of Some (JStr t) \<Rightarrow> if t = [] then ''-'' else t | _ \<Rightarrow> ''-'')"

text \<open>
  \<open>fetchDashboardData\<close>: the two requests, made with \<open>apiService.get\<close> (the default export
  that the page imports as \<open>api\<close>), and the page they leave. \<open>tier\<close> is \<open>user?.tier\<close>,
  \<open>None\<close> when there is no user. When a request throws, the \<open>catch\<close> only logs and the
  \<open>finally\<close> resets the loading flag; the statistics are written only when the second
  response is truthy.
\<close>

definition fetchDashboardData ::
  "network \<Rightarrow> string option \<Rightarrow> dashboard \<Rightarrow> nat \<Rightarrow> world \<Rightarrow> session \<Rightarrow> dashboard" where
  \<open>fetchDashboardData net tier page k w s =
     (let page1 = page\<lparr>loading := True\<rparr>;
          first = apiService_get net ''/api/conversions''
                    (no_config\<lparr>params := Some ''{"page":1,"limit":5}''\<rparr>) k w s
      in
        case result first of
          Thrown e \<Rightarrow> page1\<lparr>loading := False\<rparr>
        | NeverSettles \<Rightarrow> page1
        | Returned conversionsData \<Rightarrow>
            (let page2 =
                   (if truthy conversionsData \<and> truthy_field conversionsData ''conversions''
                    then page1\<lparr>recentConversions :=
                           (case js_get conversionsData ''conversions'' of
                              Some c \<Rightarrow> c | None \<Rightarrow> JNull)\<rparr>
                    else page1);
                 second = apiService_get net ''/api/statistics'' no_config
                            (k + requests first) (final first) (final_session first)
             in
               case result second of
                 Thrown e \<Rightarrow> page2\<lparr>loading := False\<rparr>
               | NeverSettles \<Rightarrow> page2
               | Returned statsData \<Rightarrow>
                   if truthy statsData then
                     page2\<lparr>stats :=
                             \<lparr>today = number_or_zero (js_get statsData ''conversions_today''),
                              total = number_or_zero (js_get statsData ''total_conversions''),
                              remaining =
                                (if tier = Some ''premium''
                                 then 100 - number_or_zero (js_get statsData ''conversions_today'')
                                 else 5 - number_or_zero (js_get statsData ''conversions_today'')),
                              mostUsedFormat =
                                text_or_dash (js_get statsData ''most_used_format'')\<rparr>,
                           loading := False\<rparr>
                   else page2\<lparr>loading := False\<rparr>))\<close>

text \<open>
  The tier limits as the specification words them (free 5 a day, premium 100 a day,
  enterprise unlimited), to compare the dashboard's figure with.
\<close>

datatype tier_limit = PerDay int | Unlimited

definition spec_tier_limit :: "string \<Rightarrow> tier_limit option" where
  "spec_tier_limit tier =
     (if tier = ''free'' then Some (PerDay 5)
      else if tier = ''premium'' then Some (PerDay 100)
      else if tier = ''enterprise'' then Some Unlimited
      else None)"

section \<open>Cancellation in the task state machine\<close>

text \<open>
  Modelled from the spec: the states of a conversion task (section 4.2 of the
  specification). The task state machine runs on the server; the handler behind
  \<open>POST /api/conversions/{id}/cancel\<close> is not among the sources, only its caller
  \<open>conversions.cancel\<close> is.
\<close>

datatype TaskStatus =
  Pending | Scheduled | Processing | Completed | Failed | Expired | Cancelled

text \<open>
  Modelled from the spec: what cancellation reads and writes of a task, its status and its
  cancellation flag (section 4.3).
\<close>

record ConversionTask =
  task_status :: TaskStatus
  cancel_requested :: bool

text \<open>
  Modelled from the spec: the terminal states are completed, failed, cancelled and expired
  (section 4.2).
\<close>

definition is_terminal :: "TaskStatus \<Rightarrow> bool" where
  "is_terminal s = (s = Completed \<or> s = Failed \<or> s = Cancelled \<or> s = Expired)"

datatype cancel_error = UnknownTask

text \<open>
  Modelled from the spec: cancelling a task by id (sections 4.2, 4.3 and 6). A terminal task
  is left as it is and the request succeeds; a pending or scheduled task becomes cancelled;
  for a processing task the cancellation flag is set, which the worker reads at its next
  step boundary. An id that names no task is the one case the specification leaves open; it
  is an error here.
\<close>

definition cancelTask ::
  "(nat \<Rightarrow> ConversionTask option) \<Rightarrow> nat \<Rightarrow> cancel_error + (nat \<Rightarrow> ConversionTask option)" where
  "cancelTask tasks taskId =
     (case tasks taskId of
        None \<Rightarrow> Inl UnknownTask
      | Some t \<Rightarrow>
          if is_terminal (task_status t) then Inr tasks
          else if task_status t = Processing
          then Inr (tasks(taskId \<mapsto> t\<lparr>cancel_requested := True\<rparr>))
          else Inr (tasks(taskId \<mapsto> t\<lparr>task_status := Cancelled\<rparr>)))"


section \<open>Error classes and concrete inputs\<close>

text \<open>
  The specification's class of transient errors, read on what comes back from the server:
  no answer (a network failure or a timeout), or an answer of the 5xx class.
\<close>

definition transient_answer :: "answer \<Rightarrow> bool" where
  "transient_answer a = (case a of NoAnswer \<Rightarrow> True | Answer st d \<Rightarrow> 500 \<le> st \<and> st < 600)"

text \<open>
  The test of the two \<open>catch\<close> blocks, \<open>!error.response || error.response.status >= 500\<close>.
\<close>

definition passes_retry_test :: "request_error \<Rightarrow> bool" where
  "passes_retry_test error = (case response error of None \<Rightarrow> True | Some r \<Rightarrow> status r \<ge> 500)"

text \<open>
  Concrete inputs used below: a browser with an empty cache on 14 November 2023; a user who
  is signed in, one who is signed in while the browser refuses writes to \<open>localStorage\<close>,
  and one whose refresh token is gone; a network on which the first two requests are not
  answered and the others are, one that answers every request with 200, one that answers
  every request with 401, and one that serves the two requests of the dashboard, with a
  given count of today's conversions.
\<close>

definition browser :: world where
  "browser = \<lparr>storage = Map.empty, now = 1700000000000, has_window = True\<rparr>"

definition signed_in :: session where
  "signed_in =
     \<lparr>has_token = True, has_refreshToken = True, has_user_data = True, isRefreshing = False,
      lastRefreshAttempt = 0, writes_refused = False\<rparr>"

definition storage_full :: session where
  "storage_full = signed_in\<lparr>writes_refused := True\<rparr>"

definition token_expired :: session where
  "token_expired = signed_in\<lparr>has_refreshToken := False\<rparr>"

definition flaky :: network where
  "flaky url k = (if k < 2 then (30000, NoAnswer) else (120, Answer 200 (JObj [])))"

definition healthy :: network where
  "healthy url k = (120, Answer 200 (JObj []))"

definition unauthorized :: network where
  "unauthorized url k = (80, Answer 401 (JObj [(''error'', JStr ''Token has expired'')]))"

definition statistics_server :: "int \<Rightarrow> network" where
  "statistics_server n url k =
     (if url = ''/api/statistics''
      then (60, Answer 200 (JObj [(''conversions_today'', JNum n), (''total_conversions'', JNum 40)]))
      else (60, Answer 200 (JObj [(''conversions'', JArr []), (''total'', JNum 0)])))"

declare apiService_get.simps [simp del]
declare apiService_post.simps [simp del]
declare string_of_nat.simps [simp del]

section \<open>Facts about the format lookup\<close>

lemma no_edge_unsupported:
  "\<not> edge (toLowerCase s) (toLowerCase t) \<Longrightarrow> isConversionSupported s t \<noteq> Inr True"
  by (auto simp: isConversionSupported_def supportedFormats_at_def truthy_value_def edge_def
        Let_def split: option.splits)

lemma unregistered_source:
  assumes "map_of supportedFormats (toLowerCase s) = None"
    and "toLowerCase s \<notin> set Object_prototype_keys"
  shows "isConversionSupported s t = Inr False" and "getAvailableTargetFormats s = Array []"
  using assms
  by (simp_all add: isConversionSupported_def getAvailableTargetFormats_def
        supportedFormats_at_def truthy_value_def)

section \<open>Facts about requests with retries\<close>

text \<open>
  In the retry branch \<open>config.retry\<close> and the destructured \<open>retry\<close> are the same
  number, so the exponent of the delay is 0 and every wait is 1000 ms.
\<close>

lemma backoff_zero [simp]: "backoff 0 = 1000"
  by (simp add: backoff_def)

lemma storage_elapse [simp]: "storage (elapse d w) = storage w"
  by (simp add: elapse_def)

lemma api_request_transient:
  "transient_answer (snd (net url k)) \<Longrightarrow>
     api_request net url k w s =
       \<lparr>settles = Rejected networkError, sent = 1,
        world_after = elapse (int (fst (net url k))) w, session_after = s\<rparr>"
  by (auto simp: api_request_def transient_answer_def pass_on_def networkError_def
        serverError_def Let_def split: answer.splits)

lemma api_request_client_answer:
  "snd (net url k) = Answer st d \<Longrightarrow> 400 \<le> st \<Longrightarrow> st < 500 \<Longrightarrow> st \<noteq> 401 \<Longrightarrow>
     api_request net url k w s =
       \<lparr>settles = Rejected (axiosError st d), sent = 1,
        world_after = elapse (int (fst (net url k))) w, session_after = s\<rparr>"
  by (simp add: api_request_def pass_on_def Let_def)

lemma post_retry_of_update [simp]:
  "post_retry_of (config\<lparr>post_retry := Some x\<rparr>) = x"
  by (simp add: post_retry_of_def)

lemma post_exponent_zero:
  "0 < post_retry_of config \<Longrightarrow>
     (case post_retry config of Some r \<Rightarrow> r | None \<Rightarrow> 0) - post_retry_of config = 0"
  by (simp add: post_retry_of_def split: option.splits)

lemma post_resolved:
  "settles (api_request net url k w s) = Resolved d \<Longrightarrow>
     apiService_post net url config k w s =
       \<lparr>result = Returned d, waits = [], calls = 1,
        requests = sent (api_request net url k w s),
        final = world_after (api_request net url k w s),
        final_session = session_after (api_request net url k w s)\<rparr>"
  by (subst apiService_post.simps) (simp add: Let_def)

lemma post_unsettled:
  "settles (api_request net url k w s) = Unsettled \<Longrightarrow>
     apiService_post net url config k w s =
       \<lparr>result = NeverSettles, waits = [], calls = 1,
        requests = sent (api_request net url k w s),
        final = world_after (api_request net url k w s),
        final_session = session_after (api_request net url k w s)\<rparr>"
  by (subst apiService_post.simps) (simp add: Let_def)

lemma post_thrown:
  "settles (api_request net url k w s) = Rejected e \<Longrightarrow>
   \<not> (0 < post_retry_of config \<and> passes_retry_test e) \<Longrightarrow>
     apiService_post net url config k w s =
       \<lparr>result = Thrown (handleApiError e), waits = [], calls = 1,
        requests = sent (api_request net url k w s),
        final = world_after (api_request net url k w s),
        final_session = session_after (api_request net url k w s)\<rparr>"
  by (subst apiService_post.simps) (auto simp: Let_def passes_retry_test_def)

lemma post_retried:
  assumes "settles (api_request net url k w s) = Rejected e"
    and "0 < post_retry_of config" and "passes_retry_test e"
  shows "apiService_post net url config k w s =
           (apiService_post net url (config\<lparr>post_retry := Some (post_retry_of config - 1)\<rparr>)
              (k + sent (api_request net url k w s))
              (elapse 1000 (world_after (api_request net url k w s)))
              (session_after (api_request net url k w s)))
           \<lparr>waits := 1000 # waits (apiService_post net url
                 (config\<lparr>post_retry := Some (post_retry_of config - 1)\<rparr>)
                 (k + sent (api_request net url k w s))
                 (elapse 1000 (world_after (api_request net url k w s)))
                 (session_after (api_request net url k w s))),
            calls := Suc (calls (apiService_post net url
                 (config\<lparr>post_retry := Some (post_retry_of config - 1)\<rparr>)
                 (k + sent (api_request net url k w s))
                 (elapse 1000 (world_after (api_request net url k w s)))
                 (session_after (api_request net url k w s)))),
            requests := sent (api_request net url k w s) + requests (apiService_post net url
                 (config\<lparr>post_retry := Some (post_retry_of config - 1)\<rparr>)
                 (k + sent (api_request net url k w s))
                 (elapse 1000 (world_after (api_request net url k w s)))
                 (session_after (api_request net url k w s)))\<rparr>"
  using assms post_exponent_zero [OF assms(2)]
  by (subst apiService_post.simps) (simp add: Let_def passes_retry_test_def)

lemma post_calls_and_waits:
  "calls (apiService_post net url config k w s) \<le> nat (post_retry_of config) + 1 \<and>
   length (waits (apiService_post net url config k w s)) + 1 =
     calls (apiService_post net url config k w s) \<and>
   set (waits (apiService_post net url config k w s)) \<subseteq> {1000}"
proof (induction "nat (post_retry_of config)" arbitrary: config k w s)
  case 0
  then have r: "\<not> 0 < post_retry_of config" by simp
  show ?case
  proof (cases "settles (api_request net url k w s)")
    case (Resolved d)
    then show ?thesis by (simp add: post_resolved)
  next
    case (Rejected e)
    with r show ?thesis by (simp add: post_thrown)
  next
    case Unsettled
    then show ?thesis by (simp add: post_unsettled)
  qed
next
  case (Suc n)
  show ?case
  proof (cases "settles (api_request net url k w s)")
    case (Resolved d)
    then show ?thesis by (simp add: post_resolved)
  next
    case Unsettled
    then show ?thesis by (simp add: post_unsettled)
  next
    case (Rejected e)
    show ?thesis
    proof (cases "0 < post_retry_of config \<and> passes_retry_test e")
      case True
      let ?c = "config\<lparr>post_retry := Some (post_retry_of config - 1)\<rparr>"
      from Suc.hyps(2) have "n = nat (post_retry_of ?c)" by simp
      moreover from True have "nat (post_retry_of config) = Suc (nat (post_retry_of config - 1))"
        by arith
      moreover note Suc.hyps(1) [OF \<open>n = nat (post_retry_of ?c)\<close>,
          where k = "k + sent (api_request net url k w s)"
          and w = "elapse 1000 (world_after (api_request net url k w s))"
          and s = "session_after (api_request net url k w s)"]
      ultimately show ?thesis using True Rejected
        by (simp add: post_retried [where net = net and url = url and k = k and w = w
              and s = s and e = e and config = config])
    next
      case False
      with Rejected show ?thesis by (simp add: post_thrown)
    qed
  qed
qed

lemma post_transient_run:
  "\<forall>i \<le> nat (post_retry_of config). transient_answer (snd (net url (k + i))) \<Longrightarrow>
     result (apiService_post net url config k w s) = Thrown (handleApiError networkError) \<and>
     calls (apiService_post net url config k w s) = nat (post_retry_of config) + 1 \<and>
     requests (apiService_post net url config k w s) = nat (post_retry_of config) + 1 \<and>
     final_session (apiService_post net url config k w s) = s"
proof (induction "nat (post_retry_of config)" arbitrary: config k w s)
  case 0
  then have r: "\<not> 0 < post_retry_of config" by simp
  from 0(2) have "transient_answer (snd (net url k))" by (metis add_0_right le0)
  then have a: "api_request net url k w s =
       \<lparr>settles = Rejected networkError, sent = 1,
        world_after = elapse (int (fst (net url k))) w, session_after = s\<rparr>"
    by (rule api_request_transient)
  then have "settles (api_request net url k w s) = Rejected networkError" by simp
  from post_thrown [OF this, where config = config] r a 0(1) show ?case by simp
next
  case (Suc n)
  from Suc.prems have "transient_answer (snd (net url k))" by (metis add_0_right le0)
  then have a: "api_request net url k w s =
       \<lparr>settles = Rejected networkError, sent = 1,
        world_after = elapse (int (fst (net url k))) w, session_after = s\<rparr>"
    by (rule api_request_transient)
  then have st: "settles (api_request net url k w s) = Rejected networkError" by simp
  have t: "passes_retry_test networkError"
    by (simp add: passes_retry_test_def networkError_def)
  let ?c = "config\<lparr>post_retry := Some (post_retry_of config - 1)\<rparr>"
  from Suc.hyps(2) have n: "n = nat (post_retry_of ?c)" and p: "0 < post_retry_of config"
    by simp_all
  have "\<forall>i \<le> nat (post_retry_of ?c). transient_answer (snd (net url (k + 1 + i)))"
  proof (intro allI impI)
    fix i assume "i \<le> nat (post_retry_of ?c)"
    with Suc.hyps(2) have "Suc i \<le> nat (post_retry_of config)" by simp
    with Suc.prems have "transient_answer (snd (net url (k + Suc i)))" by blast
    then show "transient_answer (snd (net url (k + 1 + i)))" by simp
  qed
  from Suc.hyps(1) [OF n this, where w = "elapse 1000 (elapse (int (fst (net url k))) w)" and s = s]
    Suc.hyps(2) a
  show ?case
    by (simp add: post_retried [OF st p t])
qed

lemma post_client_answer_thrown:
  assumes "snd (net url k) = Answer st d" and "400 \<le> st" and "st < 500" and "st \<noteq> 401"
  shows "result (apiService_post net url config k w s) = Thrown (handleApiError (axiosError st d))"
    and "calls (apiService_post net url config k w s) = 1"
    and "waits (apiService_post net url config k w s) = []"
proof -
  from assms have a: "api_request net url k w s =
       \<lparr>settles = Rejected (axiosError st d), sent = 1,
        world_after = elapse (int (fst (net url k))) w, session_after = s\<rparr>"
    by (rule api_request_client_answer)
  then have st: "settles (api_request net url k w s) = Rejected (axiosError st d)" by simp
  from assms(3) have "\<not> passes_retry_test (axiosError st d)"
    by (simp add: passes_retry_test_def axiosError_def)
  with post_thrown [OF st, where config = config]
  show "result (apiService_post net url config k w s) = Thrown (handleApiError (axiosError st d))"
    and "calls (apiService_post net url config k w s) = 1"
    and "waits (apiService_post net url config k w s) = []"
    by simp_all
qed

lemma retry_of_update [simp]:
  "retry_of (config\<lparr>retry := Some x\<rparr>) = x"
  "useCache_of (config\<lparr>retry := y\<rparr>) = useCache_of config"
  "cacheTime_of (config\<lparr>retry := y\<rparr>) = cacheTime_of config"
  "cacheKey_of url (config\<lparr>retry := y\<rparr>) = cacheKey_of url config"
  by (simp_all add: retry_of_def useCache_of_def cacheTime_of_def cacheKey_of_def)

lemma get_exponent_zero:
  "0 < retry_of config \<Longrightarrow>
     (case retry config of Some r \<Rightarrow> r | None \<Rightarrow> 0) - retry_of config = 0"
  by (simp add: retry_of_def split: option.splits)

lemma get_try_transient:
  "transient_answer (snd (net url k)) \<Longrightarrow>
     get_try net url config k w s =
       \<lparr>settles = Rejected networkError, sent = 1,
        world_after = elapse (int (fst (net url k))) w, session_after = s\<rparr>"
  by (simp add: get_try_def api_request_transient)

lemma get_try_client_answer:
  "snd (net url k) = Answer st d \<Longrightarrow> 400 \<le> st \<Longrightarrow> st < 500 \<Longrightarrow> st \<noteq> 401 \<Longrightarrow>
     get_try net url config k w s =
       \<lparr>settles = Rejected (axiosError st d), sent = 1,
        world_after = elapse (int (fst (net url k))) w, session_after = s\<rparr>"
  by (simp add: get_try_def api_request_client_answer)

lemma get_served:
  "served (fst (cache_lookup url config w)) \<Longrightarrow>
     apiService_get net url config k w s =
       \<lparr>result = Returned (case fst (cache_lookup url config w) of Some d \<Rightarrow> d | None \<Rightarrow> JNull),
        waits = [], calls = 0, requests = 0, final = snd (cache_lookup url config w),
        final_session = s\<rparr>"
  by (subst apiService_get.simps) (simp add: Let_def)

lemma get_resolved:
  "\<not> served (fst (cache_lookup url config w)) \<Longrightarrow>
   settles (get_try net url config k (snd (cache_lookup url config w)) s) = Resolved d \<Longrightarrow>
     apiService_get net url config k w s =
       \<lparr>result = Returned d, waits = [], calls = 1,
        requests = sent (get_try net url config k (snd (cache_lookup url config w)) s),
        final = world_after (get_try net url config k (snd (cache_lookup url config w)) s),
        final_session = session_after (get_try net url config k (snd (cache_lookup url config w)) s)\<rparr>"
  by (subst apiService_get.simps) (simp add: Let_def)

lemma get_unsettled:
  "\<not> served (fst (cache_lookup url config w)) \<Longrightarrow>
   settles (get_try net url config k (snd (cache_lookup url config w)) s) = Unsettled \<Longrightarrow>
     apiService_get net url config k w s =
       \<lparr>result = NeverSettles, waits = [], calls = 1,
        requests = sent (get_try net url config k (snd (cache_lookup url config w)) s),
        final = world_after (get_try net url config k (snd (cache_lookup url config w)) s),
        final_session = session_after (get_try net url config k (snd (cache_lookup url config w)) s)\<rparr>"
  by (subst apiService_get.simps) (simp add: Let_def)

lemma get_thrown:
  "\<not> served (fst (cache_lookup url config w)) \<Longrightarrow>
   settles (get_try net url config k (snd (cache_lookup url config w)) s) = Rejected e \<Longrightarrow>
   \<not> (0 < retry_of config \<and> passes_retry_test e) \<Longrightarrow>
     apiService_get net url config k w s =
       \<lparr>result = Thrown (handleApiError e), waits = [], calls = 1,
        requests = sent (get_try net url config k (snd (cache_lookup url config w)) s),
        final = world_after (get_try net url config k (snd (cache_lookup url config w)) s),
        final_session = session_after (get_try net url config k (snd (cache_lookup url config w)) s)\<rparr>"
  by (subst apiService_get.simps) (auto simp: Let_def passes_retry_test_def)

lemma get_retried:
  assumes "\<not> served (fst (cache_lookup url config w))"
    and "settles (get_try net url config k (snd (cache_lookup url config w)) s) = Rejected e"
    and "0 < retry_of config" and "passes_retry_test e"
    and "a = get_try net url config k (snd (cache_lookup url config w)) s"
    and "again = apiService_get net url (config\<lparr>retry := Some (retry_of config - 1)\<rparr>)
                   (k + sent a) (elapse 1000 (world_after a)) (session_after a)"
  shows "apiService_get net url config k w s =
           again\<lparr>waits := 1000 # waits again, calls := Suc (calls again),
                  requests := sent a + requests again\<rparr>"
  using assms get_exponent_zero [OF assms(3)]
  by (subst apiService_get.simps) (simp add: Let_def passes_retry_test_def)

lemma get_calls_and_waits:
  "calls (apiService_get net url config k w s) \<le> nat (retry_of config) + 1 \<and>
   calls (apiService_get net url config k w s) \<le>
     length (waits (apiService_get net url config k w s)) + 1 \<and>
   length (waits (apiService_get net url config k w s)) \<le>
     calls (apiService_get net url config k w s) \<and>
   set (waits (apiService_get net url config k w s)) \<subseteq> {1000}"
proof (induction "nat (retry_of config)" arbitrary: config k w s)
  case 0
  then have r: "\<not> 0 < retry_of config" by simp
  show ?case
  proof (cases "served (fst (cache_lookup url config w))")
    case True
    then show ?thesis by (simp add: get_served)
  next
    case miss: False
    show ?thesis
    proof (cases "settles (get_try net url config k (snd (cache_lookup url config w)) s)")
      case (Resolved d)
      with miss show ?thesis by (simp add: get_resolved)
    next
      case (Rejected e)
      with miss r show ?thesis by (simp add: get_thrown)
    next
      case Unsettled
      with miss show ?thesis by (simp add: get_unsettled)
    qed
  qed
next
  case (Suc n)
  show ?case
  proof (cases "served (fst (cache_lookup url config w))")
    case True
    then show ?thesis by (simp add: get_served)
  next
    case miss: False
    let ?a = "get_try net url config k (snd (cache_lookup url config w)) s"
    show ?thesis
    proof (cases "settles ?a")
      case (Resolved d)
      with miss show ?thesis by (simp add: get_resolved)
    next
      case Unsettled
      with miss show ?thesis by (simp add: get_unsettled)
    next
      case (Rejected e)
      show ?thesis
      proof (cases "0 < retry_of config \<and> passes_retry_test e")
        case True
        let ?c = "config\<lparr>retry := Some (retry_of config - 1)\<rparr>"
        let ?again = "apiService_get net url ?c (k + sent ?a) (elapse 1000 (world_after ?a))
                        (session_after ?a)"
        from Suc.hyps(2) have n: "n = nat (retry_of ?c)" by simp
        from True have m: "nat (retry_of config) = Suc (nat (retry_of config - 1))" by arith
        from True have p: "0 < retry_of config" and t: "passes_retry_test e" by simp_all
        have eq: "apiService_get net url config k w s =
            ?again\<lparr>waits := 1000 # waits ?again, calls := Suc (calls ?again),
                     requests := sent ?a + requests ?again\<rparr>"
          by (rule get_retried [OF miss Rejected p t refl refl])
        from Suc.hyps(1) [OF n, where k = "k + sent ?a" and w = "elapse 1000 (world_after ?a)"
            and s = "session_after ?a"] m n
        show ?thesis by (simp add: eq)
      next
        case False
        with miss Rejected show ?thesis by (simp add: get_thrown)
      qed
    qed
  qed
qed

lemma cache_lookup_nothing:
  "\<not> useCache_of config \<or> storage w (CACHE_KEY_PREFIX @ cacheKey_of url config) = None \<Longrightarrow>
     cache_lookup url config w = (None, w)"
  by (auto simp: cache_lookup_def RequestCache_get_def Let_def)

lemma get_transient_run:
  "\<forall>i \<le> nat (retry_of config). transient_answer (snd (net url (k + i))) \<Longrightarrow>
   \<not> useCache_of config \<or> storage w (CACHE_KEY_PREFIX @ cacheKey_of url config) = None \<Longrightarrow>
     result (apiService_get net url config k w s) = Thrown (handleApiError networkError) \<and>
     calls (apiService_get net url config k w s) = nat (retry_of config) + 1 \<and>
     requests (apiService_get net url config k w s) = nat (retry_of config) + 1 \<and>
     final_session (apiService_get net url config k w s) = s"
proof (induction "nat (retry_of config)" arbitrary: config k w s)
  case 0
  then have r: "\<not> 0 < retry_of config" by simp
  from 0(3) have l: "cache_lookup url config w = (None, w)" by (rule cache_lookup_nothing)
  then have miss: "\<not> served (fst (cache_lookup url config w))" by (simp add: served_def)
  from 0(2) have "transient_answer (snd (net url k))" by (metis add_0_right le0)
  then have a: "get_try net url config k w s =
       \<lparr>settles = Rejected networkError, sent = 1,
        world_after = elapse (int (fst (net url k))) w, session_after = s\<rparr>"
    by (rule get_try_transient)
  with l have "settles (get_try net url config k (snd (cache_lookup url config w)) s) =
      Rejected networkError" by simp
  from get_thrown [OF miss this] r a l 0(1) show ?case by simp
next
  case (Suc n)
  from Suc.prems(2) have l: "cache_lookup url config w = (None, w)" by (rule cache_lookup_nothing)
  then have miss: "\<not> served (fst (cache_lookup url config w))" by (simp add: served_def)
  from Suc.prems(1) have "transient_answer (snd (net url k))" by (metis add_0_right le0)
  then have a: "get_try net url config k w s =
       \<lparr>settles = Rejected networkError, sent = 1,
        world_after = elapse (int (fst (net url k))) w, session_after = s\<rparr>"
    by (rule get_try_transient)
  with l have st: "settles (get_try net url config k (snd (cache_lookup url config w)) s) =
      Rejected networkError" by simp
  have t: "passes_retry_test networkError"
    by (simp add: passes_retry_test_def networkError_def)
  let ?c = "config\<lparr>retry := Some (retry_of config - 1)\<rparr>"
  let ?w = "elapse 1000 (elapse (int (fst (net url k))) w)"
  let ?again = "apiService_get net url ?c (k + 1) ?w s"
  from Suc.hyps(2) have n: "n = nat (retry_of ?c)" and p: "0 < retry_of config"
    by simp_all
  have tr: "\<forall>i \<le> nat (retry_of ?c). transient_answer (snd (net url (k + 1 + i)))"
  proof (intro allI impI)
    fix i assume "i \<le> nat (retry_of ?c)"
    with Suc.hyps(2) have "Suc i \<le> nat (retry_of config)" by simp
    with Suc.prems(1) have "transient_answer (snd (net url (k + Suc i)))" by blast
    then show "transient_answer (snd (net url (k + 1 + i)))" by simp
  qed
  from Suc.prems(2)
  have c: "\<not> useCache_of ?c \<or> storage ?w (CACHE_KEY_PREFIX @ cacheKey_of url ?c) = None"
    by simp
  from get_retried [OF miss st p t refl refl]
  have eq: "apiService_get net url config k w s =
      ?again\<lparr>waits := 1000 # waits ?again, calls := Suc (calls ?again),
               requests := 1 + requests ?again\<rparr>"
    by (simp add: l a)
  from Suc.hyps(1) [OF n tr c, where s = s] Suc.hyps(2) show ?case
    by (simp add: eq)
qed

lemma get_client_answer_thrown:
  assumes "snd (net url k) = Answer st d" and "400 \<le> st" and "st < 500" and "st \<noteq> 401"
    and "\<not> served (fst (cache_lookup url config w))"
  shows "result (apiService_get net url config k w s) = Thrown (handleApiError (axiosError st d))"
    and "calls (apiService_get net url config k w s) = 1"
    and "waits (apiService_get net url config k w s) = []"
proof -
  from assms(1-4) have "settles (get_try net url config k (snd (cache_lookup url config w)) s) =
      Rejected (axiosError st d)"
    by (simp add: get_try_client_answer)
  moreover from assms(3) have "\<not> passes_retry_test (axiosError st d)"
    by (simp add: passes_retry_test_def axiosError_def)
  ultimately have "apiService_get net url config k w s =
       \<lparr>result = Thrown (handleApiError (axiosError st d)), waits = [], calls = 1,
        requests = sent (get_try net url config k (snd (cache_lookup url config w)) s),
        final = world_after (get_try net url config k (snd (cache_lookup url config w)) s),
        final_session = session_after (get_try net url config k (snd (cache_lookup url config w)) s)\<rparr>"
    using assms(5) by (simp add: get_thrown)
  then show "result (apiService_get net url config k w s) = Thrown (handleApiError (axiosError st d))"
    and "calls (apiService_get net url config k w s) = 1"
    and "waits (apiService_get net url config k w s) = []"
    by simp_all
qed

text \<open>
  \<open>conversions.cancel\<close> makes one attempt and never waits: whether it returns or throws is
  decided by how that one call of \<open>api.post\<close> settles.
\<close>

lemma conversions_cancel_single_attempt:
  "calls (conversions_cancel net conversionId w s) = 1 \<and>
   waits (conversions_cancel net conversionId w s) = []"
proof -
  define r where "r = apiService_post net
      (''/api/conversions/'' @ string_of_nat conversionId @ ''/cancel'') \<lparr>post_retry = None\<rparr> 0 w s"
  define c where "c = calls r"
  define n where "n = length (waits r)"
  have "c \<le> nat (post_retry_of \<lparr>post_retry = None\<rparr>) + 1" and "n + 1 = c"
    unfolding c_def n_def r_def using post_calls_and_waits by blast+
  then have "c = 1 \<and> n = 0"
    by (simp add: post_retry_of_def)
  then show ?thesis
    unfolding c_def n_def r_def conversions_cancel_def by simp
qed

section \<open>Facts about the response cache\<close>

lemma unparsable_entry_removed:
  assumes "has_window w" and "storage w (CACHE_KEY_PREFIX @ key) = Some Unparsable"
  shows "RequestCache_get w key = (None, removeItem w (CACHE_KEY_PREFIX @ key))"
    and "storage (snd (RequestCache_get w key)) (CACHE_KEY_PREFIX @ key) = None"
  using assms by (simp_all add: RequestCache_get_def removeItem_def Let_def)

section \<open>Path resolution (claims C1 and C7)\<close>




text \<open>
  Claim C7 says that a source format that is not registered is reported unsupported and is
  offered no target formats. The source \<open>constructor\<close> is not a key of the table, yet the
  lookup finds the member inherited from \<open>Object.prototype\<close>: \<open>isConversionSupported\<close>
  raises a TypeError instead of returning false, and \<open>getAvailableTargetFormats\<close> returns
  a value that is not an array instead of the empty array.
\<close>

theorem inherited_key_as_source:
  "map_of supportedFormats ''constructor'' = None \<and>
   isConversionSupported ''constructor'' ''pdf'' = Inl TypeError \<and>
   getAvailableTargetFormats ''constructor'' = NonArray"
  by (simp add: isConversionSupported_def getAvailableTargetFormats_def supportedFormats_at_def
        truthy_value_def supportedFormats_def Object_prototype_keys_def toLowerCase_def
        toLowerCase_char_def)

section \<open>The status of a conversion task (claim C2)\<close>

text \<open>
  The client shows a badge for every status text: the five the \<open>switch\<close> names have
  their own, every other text, \<open>cancelled\<close> and \<open>expired\<close> among them, gets the grey one.
\<close>

lemma getStatusBadgeClass_fallback:
  "getStatusBadgeClass st = ''bg-gray-100 text-gray-800 dark:bg-gray-900/30 dark:text-gray-300''
     \<longleftrightarrow> st \<notin> {''completed'', ''processing'', ''pending'', ''failed'', ''scheduled''}"
  by (auto simp: getStatusBadgeClass_def)



section \<open>Retries (claims C3 and C4)\<close>

text \<open>
  Claim C3, as amended. A request made with the retry budget \<open>retry\<close> (0 when the option is
  left out) makes at most \<open>retry + 1\<close> attempts, for \<open>apiService.get\<close> and for
  \<open>apiService.post\<close>, and every attempt after the first is preceded by a wait. When the
  \<open>retry + 1\<close> requests that the budget allows all meet a transient failure (no answer, or
  an answer of the 5xx class), \<open>apiService.post\<close> makes exactly \<open>retry + 1\<close> attempts,
  sends exactly these requests and then ends in failure (it throws); so does
  \<open>apiService.get\<close> when nothing is cached for the request.
\<close>

theorem retry_budget_bounds_attempts:
  "calls (apiService_get net url config k w s) \<le> nat (retry_of config) + 1 \<and>
   calls (apiService_get net url config k w s) \<le>
     length (waits (apiService_get net url config k w s)) + 1 \<and>
   calls (apiService_post net url pconfig k w s) \<le> nat (post_retry_of pconfig) + 1 \<and>
   calls (apiService_post net url pconfig k w s) =
     length (waits (apiService_post net url pconfig k w s)) + 1 \<and>
   retry_of no_config = 0 \<and>
   post_retry_of \<lparr>post_retry = None\<rparr> = 0 \<and>
   ((\<forall>i \<le> nat (post_retry_of pconfig). transient_answer (snd (net url (k + i)))) \<longrightarrow>
      result (apiService_post net url pconfig k w s) = Thrown (handleApiError networkError) \<and>
      calls (apiService_post net url pconfig k w s) = nat (post_retry_of pconfig) + 1 \<and>
      requests (apiService_post net url pconfig k w s) = nat (post_retry_of pconfig) + 1) \<and>
   ((\<forall>i \<le> nat (retry_of config). transient_answer (snd (net url (k + i)))) \<and>
    (\<not> useCache_of config \<or> storage w (CACHE_KEY_PREFIX @ cacheKey_of url config) = None) \<longrightarrow>
      result (apiService_get net url config k w s) = Thrown (handleApiError networkError) \<and>
      calls (apiService_get net url config k w s) = nat (retry_of config) + 1 \<and>
      requests (apiService_get net url config k w s) = nat (retry_of config) + 1)"
proof -
  have defaults: "retry_of no_config = 0" "post_retry_of \<lparr>post_retry = None\<rparr> = 0"
    by (simp_all add: retry_of_def no_config_def post_retry_of_def)
  note g = get_calls_and_waits
    [where net = net and url = url and config = config and k = k and w = w and s = s]
  note p = post_calls_and_waits
    [where net = net and url = url and config = pconfig and k = k and w = w and s = s]
  note pt = post_transient_run
    [where net = net and url = url and config = pconfig and k = k and w = w and s = s]
  note gt = get_transient_run
    [where net = net and url = url and config = config and k = k and w = w and s = s]
  from p have p': "calls (apiService_post net url pconfig k w s) =
     length (waits (apiService_post net url pconfig k w s)) + 1" by simp
  from defaults g p p' pt gt show ?thesis by blast
qed

text \<open>
  The amended claim C3 on the network whose first two requests get no answer and whose third
  would be answered, with a budget of one retry: two attempts, two requests, one wait, then
  failure.
\<close>

theorem retry_budget_bounds_attempts_witness:
  "transient_answer (snd (flaky ''/api/x'' 0)) \<and>
   transient_answer (snd (flaky ''/api/x'' 1)) \<and>
   \<not> transient_answer (snd (flaky ''/api/x'' 2)) \<and>
   result (apiService_post flaky ''/api/x'' \<lparr>post_retry = Some 1\<rparr> 0 browser signed_in) =
     Thrown (handleApiError networkError) \<and>
   calls (apiService_post flaky ''/api/x'' \<lparr>post_retry = Some 1\<rparr> 0 browser signed_in) = 2 \<and>
   requests (apiService_post flaky ''/api/x'' \<lparr>post_retry = Some 1\<rparr> 0 browser signed_in) = 2 \<and>
   length (waits (apiService_post flaky ''/api/x'' \<lparr>post_retry = Some 1\<rparr> 0 browser signed_in)) = 1 \<and>
   result (apiService_get flaky ''/api/x'' (no_config\<lparr>retry := Some 1\<rparr>) 0 browser signed_in) =
     Thrown (handleApiError networkError) \<and>
   calls (apiService_get flaky ''/api/x'' (no_config\<lparr>retry := Some 1\<rparr>) 0 browser signed_in) = 2 \<and>
   requests (apiService_get flaky ''/api/x'' (no_config\<lparr>retry := Some 1\<rparr>) 0 browser signed_in) = 2"
proof -
  have first: "transient_answer (snd (flaky ''/api/x'' 0))"
    and second: "transient_answer (snd (flaky ''/api/x'' 1))"
    and third: "\<not> transient_answer (snd (flaky ''/api/x'' 2))"
    by (simp_all add: flaky_def transient_answer_def)
  have down: "\<forall>i \<le> nat 1. transient_answer (snd (flaky ''/api/x'' (0 + i)))"
    by (simp add: flaky_def transient_answer_def)
  have r: "nat (post_retry_of \<lparr>post_retry = Some 1\<rparr>) = nat 1"
    "nat (retry_of (no_config\<lparr>retry := Some 1\<rparr>)) = nat 1"
    by (simp_all add: post_retry_of_def retry_of_def)
  have miss: "\<not> useCache_of (no_config\<lparr>retry := Some 1\<rparr>)"
    by (simp add: useCache_of_def no_config_def)
  from retry_budget_bounds_attempts
    [where net = flaky and url = "''/api/x''" and config = "no_config\<lparr>retry := Some 1\<rparr>"
       and k = 0 and w = browser and s = signed_in and pconfig = "\<lparr>post_retry = Some 1\<rparr>"]
    down miss
  have "result (apiService_post flaky ''/api/x'' \<lparr>post_retry = Some 1\<rparr> 0 browser signed_in) =
       Thrown (handleApiError networkError) \<and>
     calls (apiService_post flaky ''/api/x'' \<lparr>post_retry = Some 1\<rparr> 0 browser signed_in) = 2 \<and>
     requests (apiService_post flaky ''/api/x'' \<lparr>post_retry = Some 1\<rparr> 0 browser signed_in) = 2 \<and>
     length (waits (apiService_post flaky ''/api/x'' \<lparr>post_retry = Some 1\<rparr> 0 browser signed_in)) = 1 \<and>
     result (apiService_get flaky ''/api/x'' (no_config\<lparr>retry := Some 1\<rparr>) 0 browser signed_in) =
       Thrown (handleApiError networkError) \<and>
     calls (apiService_get flaky ''/api/x'' (no_config\<lparr>retry := Some 1\<rparr>) 0 browser signed_in) = 2 \<and>
     requests (apiService_get flaky ''/api/x'' (no_config\<lparr>retry := Some 1\<rparr>) 0 browser signed_in) = 2"
    unfolding r by simp
  with first second third show ?thesis by simp
qed

text \<open>
  Claim C3 as stated fails. With the options left out, a request whose first attempt gets
  no answer is not tried again, although the third attempt would have succeeded: the default
  budget is one attempt, not three. And with a budget of two retries both waits last
  1000 ms: the second is not twice the first.
\<close>

theorem default_attempts_counterexample:
  "result (apiService_get flaky ''/api/x'' no_config 0 browser signed_in) =
     Thrown (handleApiError networkError) \<and>
   calls (apiService_get flaky ''/api/x'' no_config 0 browser signed_in) = 1 \<and>
   result (apiService_get flaky ''/api/x'' (no_config\<lparr>retry := Some 2\<rparr>) 0 browser signed_in) =
     Returned (JObj []) \<and>
   waits (apiService_get flaky ''/api/x'' (no_config\<lparr>retry := Some 2\<rparr>) 0 browser signed_in) =
     [1000, 1000]"
  by (simp add: apiService_get.simps get_try_def api_request_def pass_on_def flaky_def
        no_config_def cache_lookup_def useCache_of_def retry_of_def served_def networkError_def
        elapse_def Let_def)

text \<open>
  Claim C4 says that only transient errors are retried and that an error of the 4xx class
  ends the operation at once. Two runs of the code do otherwise. \<open>getBatchStatus\<close>, whose
  budget is two retries, is answered 401 while no refresh token is stored: the interceptor's
  refresh throws an error without a response, which the \<open>catch\<close> takes for a failure of
  the network, and the request is sent a second time after a wait. And a GET with
  \<open>useCache\<close> and two retries is answered 200 every time while the browser refuses the
  write to the cache: each answer is followed by a retry, and the call throws after three
  requests that all succeeded.
\<close>

theorem retried_without_transient_error:
  "snd (unauthorized ''/api/batch/b42'' 0) =
     Answer 401 (JObj [(''error'', JStr ''Token has expired'')]) \<and>
   \<not> transient_answer (snd (unauthorized ''/api/batch/b42'' 0)) \<and>
   calls (getBatchStatus unauthorized ''b42'' browser token_expired) = 2 \<and>
   requests (getBatchStatus unauthorized ''b42'' browser token_expired) = 2 \<and>
   waits (getBatchStatus unauthorized ''b42'' browser token_expired) = [1000] \<and>
   \<not> transient_answer (snd (healthy ''/api/formats'' 0)) \<and>
   calls (apiService_get healthy ''/api/formats''
            (no_config\<lparr>useCache := Some True, retry := Some 2\<rparr>) 0 browser storage_full) = 3 \<and>
   waits (apiService_get healthy ''/api/formats''
            (no_config\<lparr>useCache := Some True, retry := Some 2\<rparr>) 0 browser storage_full) =
     [1000, 1000] \<and>
   result (apiService_get healthy ''/api/formats''
            (no_config\<lparr>useCache := Some True, retry := Some 2\<rparr>) 0 browser storage_full) =
     Thrown (handleApiError thrownError)"
  by (simp add: getBatchStatus_def apiService_get.simps get_try_def api_request_def
        refresh_and_replay_def refresh_failed_def pass_on_def unauthorized_def healthy_def
        transient_answer_def browser_def token_expired_def storage_full_def signed_in_def
        no_config_def cache_lookup_def useCache_of_def retry_of_def cacheKey_of_def served_def
        RequestCache_get_def thrownError_def axiosError_def elapse_def Let_def)

section \<open>The daily allowance (claim C5)\<close>

text \<open>
  Claim C5 gives the tier limits as 5 a day for free, 100 a day for premium and no limit for
  enterprise, and the remaining allowance as the limit minus today's count. For a user of
  the tier \<open>enterprise\<close> the dashboard counts the allowance down from 5: with three
  conversions today it shows 2 remaining, with seven it shows \<open>-2\<close>.
\<close>

theorem enterprise_allowance_counted_from_five:
  "spec_tier_limit ''enterprise'' = Some Unlimited \<and>
   remaining (stats (fetchDashboardData (statistics_server 3) (Some ''enterprise'')
      initial_dashboard 0 browser signed_in)) = 2 \<and>
   remaining (stats (fetchDashboardData (statistics_server 7) (Some ''enterprise'')
      initial_dashboard 0 browser signed_in)) = - 2"
  by (simp add: spec_tier_limit_def fetchDashboardData_def apiService_get.simps get_try_def
        api_request_def pass_on_def statistics_server_def initial_dashboard_def no_config_def
        cache_lookup_def useCache_of_def retry_of_def served_def truthy_field_def
        number_or_zero_def Let_def)

section \<open>Cancelling a finished task (claim C8)\<close>

text \<open>
  Claim C8. Cancelling a task that is in a terminal state (completed, failed, cancelled,
  expired) leaves every task as it is and is not an error; and cancelling is idempotent:
  a second cancel request after a successful one changes nothing.
\<close>

theorem cancel_terminal_is_noop:
  "(tasks taskId = Some t \<and> is_terminal (task_status t) \<longrightarrow> cancelTask tasks taskId = Inr tasks) \<and>
   (cancelTask tasks taskId = Inr tasks' \<longrightarrow> cancelTask tasks' taskId = Inr tasks')"
  by (auto simp: cancelTask_def is_terminal_def split: option.splits if_splits)

text \<open>Claim C8 at a completed task, and for two cancel requests on a pending task.\<close>

theorem cancel_terminal_is_noop_witness:
  "is_terminal Completed \<and>
   cancelTask [5 \<mapsto> \<lparr>task_status = Completed, cancel_requested = False\<rparr>] 5 =
     Inr [5 \<mapsto> \<lparr>task_status = Completed, cancel_requested = False\<rparr>] \<and>
   cancelTask [5 \<mapsto> \<lparr>task_status = Pending, cancel_requested = False\<rparr>] 5 =
     Inr [5 \<mapsto> \<lparr>task_status = Cancelled, cancel_requested = False\<rparr>] \<and>
   cancelTask [5 \<mapsto> \<lparr>task_status = Cancelled, cancel_requested = False\<rparr>] 5 =
     Inr [5 \<mapsto> \<lparr>task_status = Cancelled, cancel_requested = False\<rparr>]"
proof -
  have first: "cancelTask [5 \<mapsto> \<lparr>task_status = Pending, cancel_requested = False\<rparr>] 5 =
     Inr [5 \<mapsto> \<lparr>task_status = Cancelled, cancel_requested = False\<rparr>]"
    by (simp add: cancelTask_def is_terminal_def)
  from cancel_terminal_is_noop
    [of "[5 \<mapsto> \<lparr>task_status = Completed, cancel_requested = False\<rparr>]" 5
        "\<lparr>task_status = Completed, cancel_requested = False\<rparr>"]
    cancel_terminal_is_noop
    [of "[5 \<mapsto> \<lparr>task_status = Pending, cancel_requested = False\<rparr>]" 5 _
        "[5 \<mapsto> \<lparr>task_status = Cancelled, cancel_requested = False\<rparr>]"]
    first
  show ?thesis by (simp add: is_terminal_def)
qed

section \<open>Expiry of cached responses (claim C10)\<close>

text \<open>
  Claim C10, as amended. In a browser, after \<open>RequestCache.set key v ttl\<close> at time \<open>now w\<close>,
  a \<open>RequestCache.get key\<close> on the entry it stored returns \<open>v\<close> and changes nothing as long
  as the clock has not gone past the expiry time \<open>now w + ttl\<close> (the expiry time itself
  included); once the clock is past the expiry time it returns null and removes the entry.
  An entry that is not empty and cannot be parsed is answered with null and removed as
  well.
\<close>

theorem cache_entry_expiry:
  assumes "has_window w" and "has_window w'"
    and "storage w' (CACHE_KEY_PREFIX @ key) =
         storage (RequestCache_set w key v ttl) (CACHE_KEY_PREFIX @ key)"
  shows "(now w' \<le> now w + ttl \<longrightarrow> RequestCache_get w' key = (Some v, w')) \<and>
         (now w + ttl < now w' \<longrightarrow>
            fst (RequestCache_get w' key) = None \<and>
            snd (RequestCache_get w' key) = removeItem w' (CACHE_KEY_PREFIX @ key) \<and>
            storage (snd (RequestCache_get w' key)) (CACHE_KEY_PREFIX @ key) = None) \<and>
         (\<forall>u. has_window u \<and> storage u (CACHE_KEY_PREFIX @ key) = Some Unparsable \<longrightarrow>
            fst (RequestCache_get u key) = None \<and>
            storage (snd (RequestCache_get u key)) (CACHE_KEY_PREFIX @ key) = None)"
  using assms
  by (simp add: RequestCache_get_def RequestCache_set_def setItem_def removeItem_def Let_def)

text \<open>
  The amended claim C10 for an entry stored at time 10 with a lifetime of 5 ms, read at
  time 12 and at time 16, and for an entry that cannot be parsed.
\<close>

theorem cache_entry_expiry_witness:
  "RequestCache_get
     ((RequestCache_set \<lparr>storage = Map.empty, now = 10, has_window = True\<rparr> ''k'' (JNum 7) 5)
        \<lparr>now := 12\<rparr>) ''k'' =
     (Some (JNum 7),
      (RequestCache_set \<lparr>storage = Map.empty, now = 10, has_window = True\<rparr> ''k'' (JNum 7) 5)
        \<lparr>now := 12\<rparr>) \<and>
   fst (RequestCache_get
     ((RequestCache_set \<lparr>storage = Map.empty, now = 10, has_window = True\<rparr> ''k'' (JNum 7) 5)
        \<lparr>now := 16\<rparr>) ''k'') = None \<and>
   storage (snd (RequestCache_get
     ((RequestCache_set \<lparr>storage = Map.empty, now = 10, has_window = True\<rparr> ''k'' (JNum 7) 5)
        \<lparr>now := 16\<rparr>) ''k'')) (CACHE_KEY_PREFIX @ ''k'') = None \<and>
   fst (RequestCache_get
     \<lparr>storage = [CACHE_KEY_PREFIX @ ''k'' \<mapsto> Unparsable], now = 10, has_window = True\<rparr> ''k'') = None \<and>
   storage (snd (RequestCache_get
     \<lparr>storage = [CACHE_KEY_PREFIX @ ''k'' \<mapsto> Unparsable], now = 10, has_window = True\<rparr> ''k''))
     (CACHE_KEY_PREFIX @ ''k'') = None"
proof -
  let ?w = "\<lparr>storage = Map.empty, now = 10, has_window = True\<rparr>"
  let ?u = "\<lparr>storage = [CACHE_KEY_PREFIX @ ''k'' \<mapsto> Unparsable], now = 10, has_window = True\<rparr>"
  have u: "has_window ?u \<and> storage ?u (CACHE_KEY_PREFIX @ ''k'') = Some Unparsable" by simp
  let ?s = "RequestCache_set ?w ''k'' (JNum 7) 5"
  have a: "has_window ?w" by simp
  have b: "has_window (?s\<lparr>now := 12\<rparr>)" "has_window (?s\<lparr>now := 16\<rparr>)"
    by (simp_all add: RequestCache_set_def setItem_def)
  have c: "storage (?s\<lparr>now := 12\<rparr>) (CACHE_KEY_PREFIX @ ''k'') = storage ?s (CACHE_KEY_PREFIX @ ''k'')"
    "storage (?s\<lparr>now := 16\<rparr>) (CACHE_KEY_PREFIX @ ''k'') = storage ?s (CACHE_KEY_PREFIX @ ''k'')"
    by simp_all
  from cache_entry_expiry [OF a b(2) c(2)] u
  have "fst (RequestCache_get ?u ''k'') = None \<and>
        storage (snd (RequestCache_get ?u ''k'')) (CACHE_KEY_PREFIX @ ''k'') = None"
    by blast
  with cache_entry_expiry [OF a b(1) c(1)] cache_entry_expiry [OF a b(2) c(2)]
  show ?thesis by (simp add: removeItem_def)
qed

text \<open>
  Claim C10 as stated fails at the expiry time itself: an entry stored at time 10 with a
  lifetime of 5 ms is still served at time 15. It also fails for an entry that is the
  empty text, which cannot be parsed: null is returned and the entry stays in storage.
\<close>

theorem expiry_boundary_counterexample:
  "fst (RequestCache_get
     ((RequestCache_set \<lparr>storage = Map.empty, now = 10, has_window = True\<rparr> ''k'' (JNum 7) 5)
        \<lparr>now := 15\<rparr>) ''k'') = Some (JNum 7) \<and>
   fst (RequestCache_get
     \<lparr>storage = [CACHE_KEY_PREFIX @ ''k'' \<mapsto> EmptyText], now = 10, has_window = True\<rparr> ''k'') = None \<and>
   storage (snd (RequestCache_get
     \<lparr>storage = [CACHE_KEY_PREFIX @ ''k'' \<mapsto> EmptyText], now = 10, has_window = True\<rparr> ''k''))
     (CACHE_KEY_PREFIX @ ''k'') = Some EmptyText"
  by (simp add: RequestCache_get_def RequestCache_set_def setItem_def removeItem_def Let_def)

end
